theory Spec2Isabelle
  imports Complex_Main
begin

section \<open>Numbers and errors\<close>

text \<open>
  The calculator pages of \<^verbatim>\<open>app.py\<close> work on Python floats. The embedding
  takes every number as an exact rational (\<^typ>\<open>rat\<close>), so each theorem below is a
  statement about the formulas of the source over exact arithmetic; rounding, overflow and
  underflow of IEEE doubles are outside the model.

  Python's true division raises \<^verbatim>\<open>ZeroDivisionError\<close> on a zero divisor, where
  HOL's \<open>x / 0\<close> is \<open>0\<close>. Every scalar division of the source therefore goes through
  \<open>truediv\<close>, and a page that can raise returns a sum with the error on the left.
\<close>

datatype py_error = ZeroDivisionError

definition truediv :: "rat \<Rightarrow> rat \<Rightarrow> py_error + rat" where
  "truediv x y = (if y = 0 then Inl ZeroDivisionError else Inr (x / y))"

section \<open>Standard converter\<close>

text \<open>
  \<^verbatim>\<open>render_standard_converter\<close>: the select box offers exactly two options, the branches
  of the source's \<^verbatim>\<open>if\<close>/\<^verbatim>\<open>elif\<close>. The result is the variable \<^verbatim>\<open>result\<close>.
\<close>

datatype conversion = Meters_to_Kilometers | Kilograms_to_Grams

fun render_standard_converter :: "rat \<Rightarrow> conversion \<Rightarrow> py_error + rat" where
  "render_standard_converter val Meters_to_Kilometers = truediv val 1000"
| "render_standard_converter val Kilograms_to_Grams = Inr (val * 1000)"

section \<open>Temperature converter\<close>

text \<open>
  \<^verbatim>\<open>render_temperature_converter\<close>. Python reads \<^verbatim>\<open>temp * 9/5\<close> as
  \<^verbatim>\<open>(temp * 9) / 5\<close> and \<^verbatim>\<open>(temp - 32) * 5/9\<close> as \<^verbatim>\<open>((temp - 32) * 5) / 9\<close>.
\<close>

datatype temperature_conversion = Celsius_to_Fahrenheit | Fahrenheit_to_Celsius

fun render_temperature_converter :: "rat \<Rightarrow> temperature_conversion \<Rightarrow> py_error + rat" where
  "render_temperature_converter temp Celsius_to_Fahrenheit =
     (case truediv (temp * 9) 5 of Inl err \<Rightarrow> Inl err | Inr q \<Rightarrow> Inr (q + 32))"
| "render_temperature_converter temp Fahrenheit_to_Celsius = truediv ((temp - 32) * 5) 9"

section \<open>BMI calculator\<close>


section \<open>Advanced per-unit calculator\<close>



section \<open>ZIP load model\<close>


text \<open>
  \<^verbatim>\<open>render_zip_load_model\<close>, lines 126 to 140. The scalar operating point comes first:
  \<^verbatim>\<open>V/V0\<close> on Python floats raises on \<^verbatim>\<open>V0 = 0\<close>, so the curve is only reached with
  \<^verbatim>\<open>V0\<close> nonzero, where numpy's elementwise division is the exact quotient. The source
  writes the quotient \<^verbatim>\<open>V/V0\<close> four times; all four raise or succeed together.
\<close>

record zip_load_result =
  P :: rat
  Q :: rat
  Vs :: "rat list"
  Pcurve :: "rat list"
  Qcurve :: "rat list"


section \<open>Export helpers\<close>

text \<open>
  \<^verbatim>\<open>export_csv\<close> has two lines of its own: it wraps the dictionary in a one-element list,
  builds a pandas data frame from it, and returns \<^verbatim>\<open>df.to_csv(index=False)\<close> encoded as
  UTF-8. Everything else is library code, modelled below.

  A Python \<^verbatim>\<open>str\<close> is represented by the bytes of its UTF-8 encoding, a \<^typ>\<open>string\<close> of
  8-bit characters, so \<^verbatim>\<open>.encode("utf-8")\<close> is the identity on the representation. The
  characters the CSV format treats specially (comma, double quote, line feed, carriage
  return) are ASCII and never occur inside a multi-byte sequence, so quoting the bytes is
  quoting the code points. A \<^verbatim>\<open>str\<close> holding a lone surrogate has no UTF-8 form and is
  outside the model. A dictionary is an association list in insertion order whose keys are
  distinct.
\<close>

abbreviation delimiter :: char where "delimiter \<equiv> CHR '',''"
abbreviation quotechar :: char where "quotechar \<equiv> CHR 0x22"
abbreviation LF :: char where "LF \<equiv> CHR 0x0A"
abbreviation CR :: char where "CR \<equiv> CHR 0x0D"

text \<open>
  Modelled from the spec: the CSV writer is Python's \<^verbatim>\<open>csv.writer\<close>, library code outside
  the repository, as pandas configures it (comma delimiter, double quote as quote character,
  minimal quoting, quotes inside a field doubled). A field is quoted when it holds a
  delimiter, a quote or a line break; a record that is a single empty field is written as
  two quotes, so that it differs from an empty line; every record ends with the line
  terminator.
\<close>

definition special :: "char \<Rightarrow> bool" where
  "special c = (c = delimiter \<or> c = quotechar \<or> c = LF \<or> c = CR)"

definition needs_quotes :: "string \<Rightarrow> bool" where
  "needs_quotes s = list_ex special s"

definition doublequote :: "string \<Rightarrow> string" where
  "doublequote s = concat (map (\<lambda>c. if c = quotechar then [quotechar, quotechar] else [c]) s)"

definition quote_field :: "string \<Rightarrow> string" where
  "quote_field s = (if needs_quotes s then quotechar # doublequote s @ [quotechar] else s)"

fun join_fields :: "string list \<Rightarrow> string" where
  "join_fields [] = []"
| "join_fields [f] = f"
| "join_fields (f # g # fs) = f @ delimiter # join_fields (g # fs)"

definition writerow :: "string \<Rightarrow> string list \<Rightarrow> string" where
  "writerow lineterminator row =
     (if row = [[]] then [quotechar, quotechar] else join_fields (map quote_field row))
     @ lineterminator"

text \<open>
  Modelled from the spec: \<^verbatim>\<open>pandas.DataFrame\<close> and \<^verbatim>\<open>to_csv\<close> are library code outside
  the repository. A frame built from a list of dictionaries has one column per key, in the
  order in which the keys first appear, and one row per dictionary, a cell being empty where
  the dictionary lacks the key. With \<^verbatim>\<open>index=False\<close> the CSV text is the header record of
  the column labels followed by one record per row, each cell as its text (\<open>str_of\<close>), an
  empty cell as the empty string. The line terminator is \<^verbatim>\<open>os.linesep\<close>, a parameter here.
\<close>

record 'v data_frame =
  columns :: "string list"
  cells :: "'v option list list"

definition DataFrame :: "(string \<times> 'v) list list \<Rightarrow> 'v data_frame" where
  "DataFrame dicts =
     (let cols = rev (remdups (rev (concat (map (map fst) dicts))))
      in \<lparr>columns = cols, cells = map (\<lambda>d. map (map_of d) cols) dicts\<rparr>)"

definition to_csv :: "string \<Rightarrow> ('v \<Rightarrow> string) \<Rightarrow> 'v data_frame \<Rightarrow> string" where
  "to_csv lineterminator str_of df =
     writerow lineterminator (columns df) @
     concat (map (\<lambda>r. writerow lineterminator (map (case_option [] str_of) r)) (cells df))"

text \<open>
  \<^verbatim>\<open>export_csv\<close>, lines 18 to 20. The parameter \<^verbatim>\<open>filename\<close> of the source is never
  used and is left out.
\<close>

definition export_csv :: "string \<Rightarrow> ('v \<Rightarrow> string) \<Rightarrow> (string \<times> 'v) list \<Rightarrow> string" where
  "export_csv linesep str_of data_dict = to_csv linesep str_of (DataFrame [data_dict])"

text \<open>
  Modelled from the spec: the parser that reads the export back is Python's
  \<^verbatim>\<open>csv.reader\<close> with the same dialect, library code outside the repository, written as
  its state machine over the characters. A line break outside quotes ends the record, a
  carriage return directly followed by a line feed counting as one break; an empty line is a
  record without fields; text that ends inside a record ends that record.
\<close>

datatype reader_state =
  START_RECORD | START_FIELD | IN_FIELD | IN_QUOTED_FIELD | QUOTE_IN_QUOTED_FIELD

definition after_newline :: "char \<Rightarrow> string \<Rightarrow> string" where
  "after_newline c cs =
     (case cs of [] \<Rightarrow> [] | d # ds \<Rightarrow> if c = CR \<and> d = LF then ds else cs)"

function reader :: "reader_state \<Rightarrow> string \<Rightarrow> string list \<Rightarrow> string \<Rightarrow> string list list" where
  "reader st field row [] = (if st = START_RECORD then [] else [row @ [field]])"
| "reader START_RECORD field row (c # cs) =
     (if c = LF \<or> c = CR then [] # reader START_RECORD [] [] (after_newline c cs)
      else if c = quotechar then reader IN_QUOTED_FIELD [] row cs
      else if c = delimiter then reader START_FIELD [] (row @ [[]]) cs
      else reader IN_FIELD [c] row cs)"
| "reader START_FIELD field row (c # cs) =
     (if c = LF \<or> c = CR then (row @ [[]]) # reader START_RECORD [] [] (after_newline c cs)
      else if c = quotechar then reader IN_QUOTED_FIELD [] row cs
      else if c = delimiter then reader START_FIELD [] (row @ [[]]) cs
      else reader IN_FIELD [c] row cs)"
| "reader IN_FIELD field row (c # cs) =
     (if c = LF \<or> c = CR then (row @ [field]) # reader START_RECORD [] [] (after_newline c cs)
      else if c = delimiter then reader START_FIELD [] (row @ [field]) cs
      else reader IN_FIELD (field @ [c]) row cs)"
| "reader IN_QUOTED_FIELD field row (c # cs) =
     (if c = quotechar then reader QUOTE_IN_QUOTED_FIELD field row cs
      else reader IN_QUOTED_FIELD (field @ [c]) row cs)"
| "reader QUOTE_IN_QUOTED_FIELD field row (c # cs) =
     (if c = quotechar then reader IN_QUOTED_FIELD (field @ [c]) row cs
      else if c = delimiter then reader START_FIELD [] (row @ [field]) cs
      else if c = LF \<or> c = CR then (row @ [field]) # reader START_RECORD [] [] (after_newline c cs)
      else reader IN_FIELD (field @ [c]) row cs)"
  by pat_completeness auto
termination
  by (relation "measure (\<lambda>(st, field, row, inp). length inp)")
     (auto simp add: after_newline_def split: list.splits)

definition csv_reader :: "string \<Rightarrow> string list list" where
  "csv_reader text = reader START_RECORD [] [] text"

text \<open>
  The values of the example dictionary: a Python \<^verbatim>\<open>int\<close> or \<^verbatim>\<open>str\<close>, with the text
  Python's \<^verbatim>\<open>str()\<close> gives it. The text of a float is outside the model; the general
  result below holds for any text function.
\<close>

datatype pyval = PyInt int | PyStr string

fun digits :: "nat \<Rightarrow> string" where
  "digits n = (if n < 10 then [''0123456789'' ! n]
               else digits (n div 10) @ [''0123456789'' ! (n mod 10)])"

fun str :: "pyval \<Rightarrow> string" where
  "str (PyInt i) = (if i < 0 then CHR ''-'' # digits (nat (- i)) else digits (nat i))"
| "str (PyStr s) = s"

section \<open>Results about the converters\<close>

text \<open>
  C5. For every value, the Meters-to-Kilometers conversion returns \<open>value / 1000\<close> and the
  Kilograms-to-Grams conversion returns \<open>value * 1000\<close>, neither with an error; feeding the
  result of the first into the second gives the value back (over exact rationals).
\<close>

theorem convert_length_mass_roundtrip:
  "render_standard_converter val Meters_to_Kilometers = Inr (val / 1000) \<and>
   render_standard_converter val Kilograms_to_Grams = Inr (val * 1000) \<and>
   (case render_standard_converter val Meters_to_Kilometers of
      Inl err \<Rightarrow> Inl err
    | Inr km \<Rightarrow> render_standard_converter km Kilograms_to_Grams) = Inr val"
  by (simp add: truediv_def)

text \<open>
  C6. For every temperature \<open>t\<close>, Celsius-to-Fahrenheit returns \<open>t * 9 / 5 + 32\<close> and
  Fahrenheit-to-Celsius returns \<open>(t - 32) * 5 / 9\<close>; converting to Fahrenheit and back
  gives \<open>t\<close> (over exact rationals).
\<close>

theorem convert_temperature_roundtrip:
  "render_temperature_converter t Celsius_to_Fahrenheit = Inr (t * 9 / 5 + 32) \<and>
   render_temperature_converter t Fahrenheit_to_Celsius = Inr ((t - 32) * 5 / 9) \<and>
   (case render_temperature_converter t Celsius_to_Fahrenheit of
      Inl err \<Rightarrow> Inl err
    | Inr fahrenheit \<Rightarrow> render_temperature_converter fahrenheit Fahrenheit_to_Celsius) = Inr t"
  by (simp add: truediv_def)

section \<open>Results about the BMI page\<close>




section \<open>Results about the per-unit page\<close>











section \<open>Results about the ZIP load page\<close>










section \<open>Results about the CSV export\<close>

lemma reader_unquoted:
  "\<not> list_ex special s \<Longrightarrow>
     reader IN_FIELD cur row (s @ rest) = reader IN_FIELD (cur @ s) row rest"
  by (induction s arbitrary: cur) (simp_all add: special_def)

lemma reader_quoted:
  "reader IN_QUOTED_FIELD cur row (doublequote s @ quotechar # rest) =
     reader QUOTE_IN_QUOTED_FIELD (cur @ s) row rest"
  by (induction s arbitrary: cur) (simp_all add: doublequote_def)

lemma reader_field:
  assumes "st = START_RECORD \<or> st = START_FIELD"
  shows "reader st [] row (quote_field s @ c # rest) =
           (if needs_quotes s then reader QUOTE_IN_QUOTED_FIELD s row (c # rest)
            else if s = [] then reader st [] row (c # rest)
            else reader IN_FIELD s row (c # rest))"
proof (cases "needs_quotes s")
  case True
  with assms reader_quoted [of "[]" row s "c # rest"] show ?thesis
    by (auto simp add: quote_field_def)
next
  case False
  show ?thesis
  proof (cases s)
    case Nil
    with False show ?thesis
      by (simp add: quote_field_def)
  next
    case (Cons x xs)
    with False have plain: "\<not> special x" "\<not> list_ex special xs"
      by (simp_all add: needs_quotes_def)
    from plain(1) assms have "reader st [] row (x # xs @ c # rest) = reader IN_FIELD [x] row (xs @ c # rest)"
      by (auto simp add: special_def)
    also have "\<dots> = reader IN_FIELD ([x] @ xs) row (c # rest)"
      by (rule reader_unquoted [OF plain(2)])
    finally show ?thesis
      using False Cons by (simp add: quote_field_def)
  qed
qed

lemma reader_field_delimiter:
  assumes "st = START_RECORD \<or> st = START_FIELD"
  shows "reader st [] row (quote_field s @ delimiter # rest) = reader START_FIELD [] (row @ [s]) rest"
  using assms by (auto simp add: reader_field)

lemma reader_field_newline:
  assumes "c = LF \<or> c = CR"
  shows "reader START_FIELD [] row (quote_field s @ c # rest) =
           (row @ [s]) # reader START_RECORD [] [] (after_newline c rest)"
  using assms by (auto simp add: reader_field)

lemma reader_fields:
  assumes "c = LF \<or> c = CR" and "r \<noteq> []"
  shows "reader START_FIELD [] row (join_fields (map quote_field r) @ c # rest) =
           (row @ r) # reader START_RECORD [] [] (after_newline c rest)"
  using assms(2)
proof (induction r arbitrary: row rule: join_fields.induct)
  case 1
  then show ?case by simp
next
  case (2 f)
  show ?case
    by (simp add: reader_field_newline [OF assms(1)])
next
  case (3 f g fs)
  then show ?case
    by (simp add: reader_field_delimiter)
qed

lemma reader_record:
  assumes "c = LF \<or> c = CR"
  shows "reader START_RECORD [] []
           ((if r = [[]] then [quotechar, quotechar] else join_fields (map quote_field r)) @ c # rest) =
         r # reader START_RECORD [] [] (after_newline c rest)"
proof (cases r rule: join_fields.cases)
  case 1
  with assms show ?thesis by auto
next
  case (2 f)
  show ?thesis
  proof (cases "f = []")
    case True
    with 2 assms show ?thesis by auto
  next
    case False
    with 2 assms show ?thesis
      by (auto simp add: reader_field)
  qed
next
  case (3 f g fs)
  with reader_fields [OF assms, of "g # fs" "[f]" rest] show ?thesis
    by (simp add: reader_field_delimiter)
qed

lemma reader_writerow:
  assumes "lineterminator = [LF] \<or> lineterminator = [CR, LF]"
  shows "reader START_RECORD [] [] (writerow lineterminator r @ rest) =
           r # reader START_RECORD [] [] rest"
proof -
  let ?body = "if r = [[]] then [quotechar, quotechar] else join_fields (map quote_field r)"
  from assms show ?thesis
  proof
    assume lt: "lineterminator = [LF]"
    have "reader START_RECORD [] [] (?body @ LF # rest) =
            r # reader START_RECORD [] [] (after_newline LF rest)"
      by (rule reader_record) simp
    with lt show ?thesis
      by (simp add: writerow_def after_newline_def split: list.splits)
  next
    assume lt: "lineterminator = [CR, LF]"
    have "reader START_RECORD [] [] (?body @ CR # LF # rest) =
            r # reader START_RECORD [] [] (after_newline CR (LF # rest))"
      by (rule reader_record) simp
    with lt show ?thesis
      by (simp add: writerow_def after_newline_def)
  qed
qed

lemma csv_reader_writerows:
  assumes "lineterminator = [LF] \<or> lineterminator = [CR, LF]"
  shows "reader START_RECORD [] [] (concat (map (writerow lineterminator) rs)) = rs"
  by (induction rs) (simp_all add: reader_writerow [OF assms])

lemma DataFrame_single:
  assumes "distinct (map fst d)"
  shows "DataFrame [d] = \<lparr>columns = map fst d, cells = [map (Some \<circ> snd) d]\<rparr>"
proof -
  have "rev (remdups (rev (map fst d))) = map fst d"
    using assms by (simp add: distinct_remdups_id)
  moreover have "map (map_of d) (map fst d) = map (Some \<circ> snd) d"
    using assms by (auto simp add: comp_def)
  ultimately show ?thesis
    by (simp add: DataFrame_def)
qed

lemma export_csv_rows:
  assumes "distinct (map fst d)"
  shows "export_csv lt str_of d =
           concat (map (writerow lt) [map fst d, map (str_of \<circ> snd) d])"
  by (simp add: export_csv_def to_csv_def DataFrame_single [OF assms] comp_def)

text \<open>
  C8. For every dictionary (an ordered mapping from labels to values), the CSV export is one
  header record of the labels followed by one record of the values' texts, in insertion
  order, and reading the exported bytes back as CSV gives exactly these two rows, whatever
  characters the labels and values hold. Exporting \<open>{"A": 1, "B": "x"}\<close> gives the text
  \<open>A,B\<close> and \<open>1,x\<close> on two lines, which reads back as the row \<open>["1", "x"]\<close> under the header
  \<open>["A", "B"]\<close>.
\<close>

theorem export_csv_roundtrip:
  "(distinct (map fst data_dict) \<and> (linesep = [LF] \<or> linesep = [CR, LF]) \<longrightarrow>
      export_csv linesep str_of data_dict =
        writerow linesep (map fst data_dict) @ writerow linesep (map (str_of \<circ> snd) data_dict) \<and>
      csv_reader (export_csv linesep str_of data_dict) =
        [map fst data_dict, map (str_of \<circ> snd) data_dict]) \<and>
   export_csv [LF] str [(''A'', PyInt 1), (''B'', PyStr ''x'')] = ''A,B'' @ [LF] @ ''1,x'' @ [LF] \<and>
   csv_reader (export_csv [LF] str [(''A'', PyInt 1), (''B'', PyStr ''x'')]) =
     [[''A'', ''B''], [''1'', ''x'']]"
proof (intro conjI impI)
  assume "distinct (map fst data_dict) \<and> (linesep = [LF] \<or> linesep = [CR, LF])"
  then have keys: "distinct (map fst data_dict)"
    and sep: "linesep = [LF] \<or> linesep = [CR, LF]"
    by simp_all
  show "export_csv linesep str_of data_dict =
        writerow linesep (map fst data_dict) @ writerow linesep (map (str_of \<circ> snd) data_dict)"
    by (simp add: export_csv_rows [OF keys])
  show "csv_reader (export_csv linesep str_of data_dict) =
        [map fst data_dict, map (str_of \<circ> snd) data_dict]"
    unfolding csv_reader_def export_csv_rows [OF keys]
    by (rule csv_reader_writerows [OF sep])
next
  have keys: "distinct (map fst [(''A'', PyInt 1), (''B'', PyStr ''x'')])"
    by simp
  show "export_csv [LF] str [(''A'', PyInt 1), (''B'', PyStr ''x'')] = ''A,B'' @ [LF] @ ''1,x'' @ [LF]"
    by (simp add: export_csv_rows [OF keys] writerow_def quote_field_def needs_quotes_def special_def)
  have "csv_reader (export_csv [LF] str [(''A'', PyInt 1), (''B'', PyStr ''x'')]) =
          [map fst [(''A'', PyInt 1), (''B'', PyStr ''x'')],
           map (str \<circ> snd) [(''A'', PyInt 1), (''B'', PyStr ''x'')]]"
    unfolding csv_reader_def export_csv_rows [OF keys]
    by (rule csv_reader_writerows) simp
  then show "csv_reader (export_csv [LF] str [(''A'', PyInt 1), (''B'', PyStr ''x'')]) =
     [[''A'', ''B''], [''1'', ''x'']]"
    by simp
qed

theorem export_csv_roundtrip_witness:
  "distinct (map fst [(''Coeffs a,b,c'', PyStr ''0.50, 0.30, 0.20''), (''P (MW)'', PyInt (-120))]) \<and>
   csv_reader (export_csv [CR, LF] str
       [(''Coeffs a,b,c'', PyStr ''0.50, 0.30, 0.20''), (''P (MW)'', PyInt (-120))]) =
     [[''Coeffs a,b,c'', ''P (MW)''], [''0.50, 0.30, 0.20'', ''-120'']]"
proof -
  let ?d = "[(''Coeffs a,b,c'', PyStr ''0.50, 0.30, 0.20''), (''P (MW)'', PyInt (-120))]"
  have keys: "distinct (map fst ?d)"
    by simp
  have sep: "[CR, LF] = [LF] \<or> [CR, LF] = [CR, LF]"
    by simp
  from export_csv_roundtrip [of ?d "[CR, LF]" str] keys sep
  have "csv_reader (export_csv [CR, LF] str ?d) = [map fst ?d, map (str \<circ> snd) ?d]"
    by blast
  then have "csv_reader (export_csv [CR, LF] str ?d) =
      [[''Coeffs a,b,c'', ''P (MW)''], [''0.50, 0.30, 0.20'', ''-120'']]"
    by simp
  with keys show ?thesis
    by blast
qed

end
